theory Spec2Isabelle
  imports Complex_Main
begin

section \<open>Python floats\<close>

text \<open>
  The losses of \<^verbatim>\<open>train.py\<close> are Python floats (\<^verbatim>\<open>loss_value.item()\<close>, the literal
  \<^verbatim>\<open>0.0\<close>). A float is a finite number, an infinity or NaN. The arithmetic on the
  special values is the one of IEEE 754; on two finite operands an operation computes the
  exact result and rounds it, and the rounding is a parameter \<open>r\<close> of every operation
  (it may also overflow to an infinity). Exact arithmetic is the rounding \<open>Fin\<close>.
  Signed zeros are not told apart: no operation of \<^verbatim>\<open>train.py\<close> observes the sign of a zero.
\<close>

datatype pyfloat = Fin real | PInf | NInf | NaN

datatype error = ZeroDivisionError

fun fneg :: "pyfloat \<Rightarrow> pyfloat" where
  "fneg (Fin a) = Fin (- a)"
| "fneg PInf = NInf"
| "fneg NInf = PInf"
| "fneg NaN = NaN"

fun fadd :: "(real \<Rightarrow> pyfloat) \<Rightarrow> pyfloat \<Rightarrow> pyfloat \<Rightarrow> pyfloat" where
  "fadd r (Fin a) (Fin b) = r (a + b)"
| "fadd r NaN y = NaN"
| "fadd r x NaN = NaN"
| "fadd r PInf NInf = NaN"
| "fadd r NInf PInf = NaN"
| "fadd r PInf y = PInf"
| "fadd r x PInf = PInf"
| "fadd r NInf y = NInf"
| "fadd r x NInf = NInf"

definition fsub :: "(real \<Rightarrow> pyfloat) \<Rightarrow> pyfloat \<Rightarrow> pyfloat \<Rightarrow> pyfloat" where
  "fsub r x y = fadd r x (fneg y)"

definition signed_inf :: "bool \<Rightarrow> pyfloat" where
  "signed_inf positive = (if positive then PInf else NInf)"

fun fmul :: "(real \<Rightarrow> pyfloat) \<Rightarrow> pyfloat \<Rightarrow> pyfloat \<Rightarrow> pyfloat" where
  "fmul r (Fin a) (Fin b) = r (a * b)"
| "fmul r NaN y = NaN"
| "fmul r x NaN = NaN"
| "fmul r (Fin a) PInf = (if a = 0 then NaN else signed_inf (0 < a))"
| "fmul r (Fin a) NInf = (if a = 0 then NaN else signed_inf (a < 0))"
| "fmul r PInf (Fin b) = (if b = 0 then NaN else signed_inf (0 < b))"
| "fmul r NInf (Fin b) = (if b = 0 then NaN else signed_inf (b < 0))"
| "fmul r PInf PInf = PInf"
| "fmul r PInf NInf = NInf"
| "fmul r NInf PInf = NInf"
| "fmul r NInf NInf = PInf"

text \<open>The quotient of two floats whose divisor is not zero.\<close>

fun ieee_quotient :: "(real \<Rightarrow> pyfloat) \<Rightarrow> pyfloat \<Rightarrow> pyfloat \<Rightarrow> pyfloat" where
  "ieee_quotient r (Fin a) (Fin b) = r (a / b)"
| "ieee_quotient r NaN y = NaN"
| "ieee_quotient r x NaN = NaN"
| "ieee_quotient r (Fin a) y = Fin 0"
| "ieee_quotient r PInf (Fin b) = signed_inf (0 < b)"
| "ieee_quotient r NInf (Fin b) = signed_inf (b < 0)"
| "ieee_quotient r x y = NaN"

text \<open>
  Python's \<^verbatim>\<open>x / y\<close> on floats raises \<^verbatim>\<open>ZeroDivisionError\<close> when \<^verbatim>\<open>y == 0.0\<close>, whatever
  \<^verbatim>\<open>x\<close> is, and is the IEEE quotient otherwise.
\<close>

definition fdiv :: "(real \<Rightarrow> pyfloat) \<Rightarrow> pyfloat \<Rightarrow> pyfloat \<Rightarrow> error + pyfloat" where
  "fdiv r x y = (if y = Fin 0 then Inl ZeroDivisionError else Inr (ieee_quotient r x y))"

text \<open>\<^verbatim>\<open>x > y\<close>: false as soon as one side is NaN.\<close>

fun fgt :: "pyfloat \<Rightarrow> pyfloat \<Rightarrow> bool" where
  "fgt (Fin a) (Fin b) = (b < a)"
| "fgt NaN y = False"
| "fgt x NaN = False"
| "fgt x PInf = False"
| "fgt PInf y = True"
| "fgt NInf y = False"
| "fgt x NInf = True"

text \<open>\<^verbatim>\<open>a / b\<close> on two Python ints with \<^verbatim>\<open>b\<close> not zero: the rounded quotient.\<close>

definition int_truediv :: "(real \<Rightarrow> pyfloat) \<Rightarrow> int \<Rightarrow> int \<Rightarrow> pyfloat" where
  "int_truediv r a b = r (real_of_int a / real_of_int b)"


section \<open>The model, the optimizer and the library\<close>

text \<open>
  A \<^verbatim>\<open>torch.nn.Module\<close>: its trainable parameters (what \<^verbatim>\<open>state_dict()\<close> holds), the
  mode set by \<^verbatim>\<open>model.train()\<close> and \<^verbatim>\<open>model.eval()\<close>, and whether \<^verbatim>\<open>model.cuda()\<close> has
  moved it to the GPU.
\<close>

record 'p module =
  params :: 'p
  training :: bool
  on_cuda :: bool

text \<open>
  What \<^verbatim>\<open>train.py\<close> calls and does not define is a parameter: the forward pass
  \<^verbatim>\<open>model(data)\<close>, which is told whether gradients are recorded (\<open>False\<close> inside
  \<^verbatim>\<open>with torch.no_grad()\<close>) and gives the output and the module after the call, since a
  forward pass is a method of a mutable object and may write to it; \<^verbatim>\<open>optimizer.zero_grad()\<close>,
  \<^verbatim>\<open>loss_value.backward()\<close> and \<^verbatim>\<open>optimizer.step()\<close> taken together, which give the
  module and the optimizer after the step; the \<^verbatim>\<open>ReduceLROnPlateau\<close> scheduler;
  the learning rate \<^verbatim>\<open>optimizer.param_groups[0]["lr"]\<close>; the number of correct predictions
  of a batch and the batch size \<^verbatim>\<open>data.size(0)\<close>; \<^verbatim>\<open>torch.cuda.is_available()\<close>; and the
  rounding of float arithmetic. The loss function \<^verbatim>\<open>loss\<close> is an argument of the
  procedures, as in the source; \<open>loss output target\<close> stands for
  \<^verbatim>\<open>loss(output, target).item()\<close>.
\<close>

record ('p, 'o, 's, 'd, 't, 'y) torch =
  cuda_is_available :: bool
  forward :: "bool \<Rightarrow> 'p module \<Rightarrow> 'd \<Rightarrow> 'y \<times> 'p module"
  backward_step :: "('y \<Rightarrow> 't \<Rightarrow> pyfloat) \<Rightarrow> 'p module \<Rightarrow> 'o \<Rightarrow> 'd \<Rightarrow> 't \<Rightarrow> 'p module \<times> 'o"
  reduce_lr_on_plateau :: "'o \<Rightarrow> 's"
  scheduler_step :: "'s \<Rightarrow> pyfloat \<Rightarrow> 'o \<Rightarrow> 's \<times> 'o"
  learning_rate :: "'o \<Rightarrow> pyfloat"
  correct_predictions :: "'y \<Rightarrow> 't \<Rightarrow> nat"
  batch_size :: "'d \<Rightarrow> nat"
  rnd :: "real \<Rightarrow> pyfloat"

definition cuda :: "('p, 'o, 's, 'd, 't, 'y) torch \<Rightarrow> 'p module \<Rightarrow> 'p module" where
  "cuda T model = (if cuda_is_available T then model\<lparr>on_cuda := True\<rparr> else model)"

section \<open>train_one_epoch\<close>

text \<open>
  The loop over \<^verbatim>\<open>enumerate(train_dataloader)\<close>: \<open>batch_idx\<close> counts from 0. The progress
  bar of \<^verbatim>\<open>tqdm\<close> and the copies of a batch to the GPU change no value and are left out.
  The forward pass is made with gradient recording on, and the optimizer step acts on the
  module that the forward pass leaves.
\<close>

fun train_batches ::
  "('p, 'o, 's, 'd, 't, 'y) torch \<Rightarrow> ('y \<Rightarrow> 't \<Rightarrow> pyfloat) \<Rightarrow> ('d \<times> 't) list \<Rightarrow> nat \<Rightarrow>
   'p module \<Rightarrow> 'o \<Rightarrow> pyfloat \<Rightarrow> pyfloat \<times> 'p module \<times> 'o" where
  "train_batches T loss [] batch_idx model optimizer train_loss = (train_loss, model, optimizer)"
| "train_batches T loss ((data, target) # rest) batch_idx model optimizer train_loss =
     (let (output, model1) = forward T True model data;
          loss_value = loss output target;
          (model', optimizer') = backward_step T loss model1 optimizer data target;
          train_loss' = fadd (rnd T) train_loss
            (fmul (rnd T) (int_truediv (rnd T) 1 (int batch_idx + 1))
               (fsub (rnd T) loss_value train_loss))
      in train_batches T loss rest (batch_idx + 1) model' optimizer' train_loss')"

definition train_one_epoch ::
  "('p, 'o, 's, 'd, 't, 'y) torch \<Rightarrow> ('d \<times> 't) list \<Rightarrow> 'p module \<Rightarrow> 'o \<Rightarrow>
   ('y \<Rightarrow> 't \<Rightarrow> pyfloat) \<Rightarrow> pyfloat \<times> 'p module \<times> 'o" where
  "train_one_epoch T train_dataloader model optimizer loss =
     train_batches T loss train_dataloader 0 ((cuda T model)\<lparr>training := True\<rparr>) optimizer (Fin 0)"

section \<open>valid_one_epoch\<close>

text \<open>
  The loop runs inside \<^verbatim>\<open>with torch.no_grad()\<close>: every forward pass is made with gradient
  recording off, and there is no optimizer step.
\<close>

fun valid_batches ::
  "('p, 'o, 's, 'd, 't, 'y) torch \<Rightarrow> ('y \<Rightarrow> 't \<Rightarrow> pyfloat) \<Rightarrow> ('d \<times> 't) list \<Rightarrow> nat \<Rightarrow>
   'p module \<Rightarrow> pyfloat \<Rightarrow> pyfloat \<times> 'p module" where
  "valid_batches T loss [] batch_idx model valid_loss = (valid_loss, model)"
| "valid_batches T loss ((data, target) # rest) batch_idx model valid_loss =
     (let (output, model') = forward T False model data;
          loss_value = loss output target;
          valid_loss' = fadd (rnd T) valid_loss
            (fmul (rnd T) (int_truediv (rnd T) 1 (int batch_idx + 1))
               (fsub (rnd T) loss_value valid_loss))
      in valid_batches T loss rest (batch_idx + 1) model' valid_loss')"

definition valid_one_epoch ::
  "('p, 'o, 's, 'd, 't, 'y) torch \<Rightarrow> ('d \<times> 't) list \<Rightarrow> 'p module \<Rightarrow>
   ('y \<Rightarrow> 't \<Rightarrow> pyfloat) \<Rightarrow> pyfloat \<times> 'p module" where
  "valid_one_epoch T valid_dataloader model loss =
     valid_batches T loss valid_dataloader 0 (cuda T (model\<lparr>training := False\<rparr>)) (Fin 0)"

section \<open>one_epoch_test\<close>

text \<open>What the procedures print, one value per \<^verbatim>\<open>print\<close> call (the formatting is left out).\<close>

datatype line =
    EpochStarting int int
  | TrainingLoss int pyfloat
  | ValidationLoss int pyfloat
  | NewMinimum pyfloat
  | TestLoss pyfloat
  | TestAccuracy nat nat

text \<open>
  \<^verbatim>\<open>correct\<close> and \<^verbatim>\<open>total\<close> are floats that only ever hold counts, here natural numbers
  (\<open>total_n\<close> for \<^verbatim>\<open>total\<close>). This loop too runs inside \<^verbatim>\<open>with torch.no_grad()\<close>.
\<close>

fun test_batches ::
  "('p, 'o, 's, 'd, 't, 'y) torch \<Rightarrow> ('y \<Rightarrow> 't \<Rightarrow> pyfloat) \<Rightarrow> ('d \<times> 't) list \<Rightarrow> nat \<Rightarrow>
   'p module \<Rightarrow> pyfloat \<Rightarrow> nat \<Rightarrow> nat \<Rightarrow> pyfloat \<times> nat \<times> nat \<times> 'p module" where
  "test_batches T loss [] batch_idx model test_loss correct total_n =
     (test_loss, correct, total_n, model)"
| "test_batches T loss ((data, target) # rest) batch_idx model test_loss correct total_n =
     (let (output, model') = forward T False model data;
          loss_value = loss output target;
          test_loss' = fadd (rnd T) test_loss
            (fmul (rnd T) (int_truediv (rnd T) 1 (int batch_idx + 1))
               (fsub (rnd T) loss_value test_loss));
          correct' = correct + correct_predictions T output target;
          total_n' = total_n + batch_size T data
      in test_batches T loss rest (batch_idx + 1) model' test_loss' correct' total_n')"

text \<open>
  After the loop the test loss is printed, then the accuracy \<^verbatim>\<open>100. * correct / total\<close>,
  a float division that raises when \<^verbatim>\<open>total\<close> is zero. The result is what was printed and
  the module, with the exception or with the returned loss.
\<close>

definition one_epoch_test ::
  "('p, 'o, 's, 'd, 't, 'y) torch \<Rightarrow> ('d \<times> 't) list \<Rightarrow> 'p module \<Rightarrow>
   ('y \<Rightarrow> 't \<Rightarrow> pyfloat) \<Rightarrow>
   (error \<times> 'p module \<times> line list) + (pyfloat \<times> 'p module \<times> line list)" where
  "one_epoch_test T test_dataloader model loss =
     (let (test_loss, correct, total_n, model') =
            test_batches T loss test_dataloader 0 (cuda T (model\<lparr>training := False\<rparr>)) (Fin 0) 0 0
      in if total_n = 0 then Inl (ZeroDivisionError, model', [TestLoss test_loss])
         else Inr (test_loss, model', [TestLoss test_loss, TestAccuracy correct total_n]))"

section \<open>optimize\<close>

text \<open>
  \<^verbatim>\<open>data_loaders\<close> is a dictionary that holds a loader under each key the procedure reads.
\<close>

record ('d, 't) data_loaders =
  train :: "('d \<times> 't) list"
  valid :: "('d \<times> 't) list"

text \<open>
  The state of a call of \<^verbatim>\<open>optimize\<close>: the module and the optimizer it was given, its
  local variables \<^verbatim>\<open>scheduler\<close> and \<^verbatim>\<open>valid_loss_min\<close>, and its effects so far: the calls
  \<^verbatim>\<open>torch.save(model.state_dict(), save_path)\<close> (path and parameters, oldest first), the
  lines printed, and the \<^verbatim>\<open>logs\<close> sent to the live plot (loss, val_loss, lr).
  Writing the file is taken to succeed.
\<close>

record ('p, 'o, 's) run =
  st_model :: "'p module"
  st_optimizer :: 'o
  st_scheduler :: 's
  valid_loss_min :: "pyfloat option"
  saved :: "(string \<times> 'p) list"
  printed :: "line list"
  plotted :: "(pyfloat \<times> pyfloat \<times> pyfloat) list"

text \<open>
  The condition of line 99,
  \<^verbatim>\<open>valid_loss_min is None or ((valid_loss_min - valid_loss) / valid_loss_min > 0.01)\<close>:
  \<^verbatim>\<open>or\<close> does not evaluate its right side when the left one holds.
\<close>

definition save_condition ::
  "(real \<Rightarrow> pyfloat) \<Rightarrow> pyfloat option \<Rightarrow> pyfloat \<Rightarrow> error + bool" where
  "save_condition r best valid_loss =
     (case best of
        None \<Rightarrow> Inr True
      | Some b \<Rightarrow>
          (case fdiv r (fsub r b valid_loss) b of
             Inl e \<Rightarrow> Inl e
           | Inr q \<Rightarrow> Inr (fgt q (r (1 / 100)))))"

text \<open>The body of the loop over the epochs (lines 90 to 113).\<close>

definition optimize_epoch ::
  "('p, 'o, 's, 'd, 't, 'y) torch \<Rightarrow> ('d, 't) data_loaders \<Rightarrow> ('y \<Rightarrow> 't \<Rightarrow> pyfloat) \<Rightarrow>
   int \<Rightarrow> string \<Rightarrow> bool \<Rightarrow> int \<Rightarrow> ('p, 'o, 's) run \<Rightarrow>
   (error \<times> ('p, 'o, 's) run) + ('p, 'o, 's) run" where
  "optimize_epoch T loaders loss n_epochs save_path interactive_tracking epoch st =
     (let (train_loss, model1, optimizer1) =
            train_one_epoch T (train loaders) (st_model st) (st_optimizer st) loss;
          (valid_loss, model2) = valid_one_epoch T (valid loaders) model1 loss;
          st1 = st\<lparr>st_model := model2, st_optimizer := optimizer1,
                  printed := printed st @ [EpochStarting epoch n_epochs,
                    TrainingLoss epoch train_loss, ValidationLoss epoch valid_loss]\<rparr>
      in case save_condition (rnd T) (valid_loss_min st) valid_loss of
           Inl e \<Rightarrow> Inl (e, st1)
         | Inr save \<Rightarrow>
             (let st2 = (if save
                         then st1\<lparr>printed := printed st1 @ [NewMinimum valid_loss],
                                 saved := saved st1 @ [(save_path, params model2)],
                                 valid_loss_min := Some valid_loss\<rparr>
                         else st1);
                  (scheduler', optimizer') =
                    scheduler_step T (st_scheduler st2) valid_loss (st_optimizer st2);
                  st3 = st2\<lparr>st_scheduler := scheduler', st_optimizer := optimizer'\<rparr>
              in Inr (if interactive_tracking
                      then st3\<lparr>plotted := plotted st3 @
                                 [(train_loss, valid_loss, learning_rate T optimizer')]\<rparr>
                      else st3)))"

fun optimize_epochs ::
  "('p, 'o, 's, 'd, 't, 'y) torch \<Rightarrow> ('d, 't) data_loaders \<Rightarrow> ('y \<Rightarrow> 't \<Rightarrow> pyfloat) \<Rightarrow>
   int \<Rightarrow> string \<Rightarrow> bool \<Rightarrow> int list \<Rightarrow> ('p, 'o, 's) run \<Rightarrow>
   (error \<times> ('p, 'o, 's) run) + ('p, 'o, 's) run" where
  "optimize_epochs T loaders loss n_epochs save_path interactive_tracking [] st = Inr st"
| "optimize_epochs T loaders loss n_epochs save_path interactive_tracking (epoch # rest) st =
     (case optimize_epoch T loaders loss n_epochs save_path interactive_tracking epoch st of
        Inl raised \<Rightarrow> Inl raised
      | Inr st' \<Rightarrow>
          optimize_epochs T loaders loss n_epochs save_path interactive_tracking rest st')"

text \<open>The state in which \<^verbatim>\<open>optimize\<close> enters its loop (lines 77 to 87).\<close>

definition initial_run ::
  "('p, 'o, 's, 'd, 't, 'y) torch \<Rightarrow> 'p module \<Rightarrow> 'o \<Rightarrow> ('p, 'o, 's) run" where
  "initial_run T model optimizer =
     \<lparr>st_model = model, st_optimizer = optimizer,
      st_scheduler = reduce_lr_on_plateau T optimizer, valid_loss_min = None,
      saved = [], printed = [], plotted = []\<rparr>"

text \<open>
  \<^verbatim>\<open>optimize\<close> runs the epochs \<^verbatim>\<open>range(1, n_epochs + 1)\<close>. It returns nothing; the model
  gives the state at its end, after an \<open>Inl\<close> the state in which the exception left.
\<close>

definition optimize ::
  "('p, 'o, 's, 'd, 't, 'y) torch \<Rightarrow> ('d, 't) data_loaders \<Rightarrow> 'p module \<Rightarrow> 'o \<Rightarrow>
   ('y \<Rightarrow> 't \<Rightarrow> pyfloat) \<Rightarrow> int \<Rightarrow> string \<Rightarrow> bool \<Rightarrow>
   (error \<times> ('p, 'o, 's) run) + ('p, 'o, 's) run" where
  "optimize T loaders model optimizer loss n_epochs save_path interactive_tracking =
     optimize_epochs T loaders loss n_epochs save_path interactive_tracking [1..n_epochs]
       (initial_run T model optimizer)"

definition final_state :: "(error \<times> 'a) + 'a \<Rightarrow> 'a" where
  "final_state res = (case res of Inl (e, st) \<Rightarrow> st | Inr st \<Rightarrow> st)"

section \<open>Notions used in the statements\<close>

text \<open>
  The three loops update their average with the same expression (lines 38, 68 and 148).
  \<open>running_average r k avg ls\<close> applies that expression to a sequence of batch losses,
  \<open>k\<close> batches having been averaged into \<open>avg\<close> already.
\<close>

fun running_average :: "(real \<Rightarrow> pyfloat) \<Rightarrow> nat \<Rightarrow> pyfloat \<Rightarrow> pyfloat list \<Rightarrow> pyfloat" where
  "running_average r k avg [] = avg"
| "running_average r k avg (l # ls) =
     running_average r (k + 1)
       (fadd r avg (fmul r (int_truediv r 1 (int k + 1)) (fsub r l avg))) ls"

text \<open>
  The recurrence as the specification writes it, on real numbers:
  \<open>avg\<^sub>k = avg\<^sub>k\<^sub>-\<^sub>1 + (loss\<^sub>k - avg\<^sub>k\<^sub>-\<^sub>1) / k\<close>.
\<close>

fun incremental_mean :: "nat \<Rightarrow> real \<Rightarrow> real list \<Rightarrow> real" where
  "incremental_mean k avg [] = avg"
| "incremental_mean k avg (l # ls) =
     incremental_mean (k + 1) (avg + (l - avg) / real (k + 1)) ls"

text \<open>
  The batch losses a loop sees. In training each loss is computed before the optimizer
  step of its batch; in validation and in the test only the forward passes act on the
  module.
\<close>

fun train_losses ::
  "('p, 'o, 's, 'd, 't, 'y) torch \<Rightarrow> ('y \<Rightarrow> 't \<Rightarrow> pyfloat) \<Rightarrow> ('d \<times> 't) list \<Rightarrow>
   'p module \<Rightarrow> 'o \<Rightarrow> pyfloat list" where
  "train_losses T loss [] model optimizer = []"
| "train_losses T loss ((data, target) # rest) model optimizer =
     (let (output, model1) = forward T True model data;
          (model', optimizer') = backward_step T loss model1 optimizer data target
      in loss output target # train_losses T loss rest model' optimizer')"

fun eval_losses ::
  "('p, 'o, 's, 'd, 't, 'y) torch \<Rightarrow> ('y \<Rightarrow> 't \<Rightarrow> pyfloat) \<Rightarrow> ('d \<times> 't) list \<Rightarrow>
   'p module \<Rightarrow> pyfloat list" where
  "eval_losses T loss [] model = []"
| "eval_losses T loss ((data, target) # rest) model =
     (let (output, model') = forward T False model data
      in loss output target # eval_losses T loss rest model')"

definition train_loss_values ::
  "('p, 'o, 's, 'd, 't, 'y) torch \<Rightarrow> ('d \<times> 't) list \<Rightarrow> 'p module \<Rightarrow> 'o \<Rightarrow>
   ('y \<Rightarrow> 't \<Rightarrow> pyfloat) \<Rightarrow> pyfloat list" where
  "train_loss_values T train_dataloader model optimizer loss =
     train_losses T loss train_dataloader ((cuda T model)\<lparr>training := True\<rparr>) optimizer"

definition eval_loss_values ::
  "('p, 'o, 's, 'd, 't, 'y) torch \<Rightarrow> ('d \<times> 't) list \<Rightarrow> 'p module \<Rightarrow>
   ('y \<Rightarrow> 't \<Rightarrow> pyfloat) \<Rightarrow> pyfloat list" where
  "eval_loss_values T dataloader model loss =
     eval_losses T loss dataloader (cuda T (model\<lparr>training := False\<rparr>))"

text \<open>
  The arithmetic mean as the specification writes it, \<open>(loss\<^sub>1 + \<dots> + loss\<^sub>n) / n\<close>, on
  floats, for a sequence that is not empty.
\<close>

definition arithmetic_mean :: "(real \<Rightarrow> pyfloat) \<Rightarrow> pyfloat list \<Rightarrow> pyfloat" where
  "arithmetic_mean r ls = ieee_quotient r (foldl (fadd r) (Fin 0) ls) (Fin (real (length ls)))"

text \<open>The number of samples of a loader: what \<^verbatim>\<open>total\<close> holds after the test loop.\<close>

definition samples :: "('p, 'o, 's, 'd, 't, 'y) torch \<Rightarrow> ('d \<times> 't) list \<Rightarrow> nat" where
  "samples T batches = sum_list (map (\<lambda>(data, target). batch_size T data) batches)"

text \<open>The validation losses among the printed lines, one per epoch, oldest first.\<close>

fun valid_losses :: "line list \<Rightarrow> pyfloat list" where
  "valid_losses [] = []"
| "valid_losses (ValidationLoss epoch v # rest) = v # valid_losses rest"
| "valid_losses (other # rest) = valid_losses rest"

text \<open>The validation loss that an epoch starting in state \<open>st\<close> computes.\<close>

definition epoch_valid_loss ::
  "('p, 'o, 's, 'd, 't, 'y) torch \<Rightarrow> ('d, 't) data_loaders \<Rightarrow> ('y \<Rightarrow> 't \<Rightarrow> pyfloat) \<Rightarrow>
   ('p, 'o, 's) run \<Rightarrow> pyfloat" where
  "epoch_valid_loss T loaders loss st =
     fst (valid_one_epoch T (valid loaders)
            (fst (snd (train_one_epoch T (train loaders) (st_model st) (st_optimizer st) loss)))
            loss)"

text \<open>The least of a list of losses, as Python's \<^verbatim>\<open>min\<close> finds it.\<close>

fun loss_minimum :: "pyfloat list \<Rightarrow> pyfloat option" where
  "loss_minimum [] = None"
| "loss_minimum (v # vs) =
     (case loss_minimum vs of
        None \<Rightarrow> Some v
      | Some m \<Rightarrow> Some (if fgt v m then m else v))"

definition positive_loss :: "pyfloat \<Rightarrow> bool" where
  "positive_loss v = (case v of Fin x \<Rightarrow> 0 < x | _ \<Rightarrow> False)"

text \<open>\<open>v\<close> is not more than one percent below \<open>best\<close>.\<close>

definition within_one_percent :: "pyfloat \<Rightarrow> pyfloat \<Rightarrow> bool" where
  "within_one_percent best v =
     (case (best, v) of (Fin x, Fin y) \<Rightarrow> 99 / 100 * x \<le> y | _ \<Rightarrow> False)"

text \<open>
  Two invariants of the loop of \<^verbatim>\<open>optimize\<close>: the stored minimum is one of the validation
  losses printed so far (and there is none before the first epoch), and no validation loss
  printed so far is more than one percent below it.
\<close>

definition tracks_best :: "('p, 'o, 's) run \<Rightarrow> bool" where
  "tracks_best st =
     (case valid_loss_min st of
        None \<Rightarrow> valid_losses (printed st) = []
      | Some best \<Rightarrow> best \<in> set (valid_losses (printed st)))"

definition near_best :: "('p, 'o, 's) run \<Rightarrow> bool" where
  "near_best st =
     (case valid_loss_min st of
        None \<Rightarrow> True
      | Some best \<Rightarrow> list_all (within_one_percent best) (valid_losses (printed st)))"

subsection \<open>A small instance\<close>

text \<open>
  A library to run the procedures on: the parameters of the module count the optimizer
  steps taken, the output of the forward pass is that count (and the pass leaves the
  module alone), a target is a table that
  gives the loss for each count, and arithmetic is exact. Every batch holds one sample.
\<close>

definition demo_torch :: "(nat, unit, unit, unit, nat \<Rightarrow> pyfloat, nat) torch" where
  "demo_torch =
     \<lparr>cuda_is_available = False,
      forward = (\<lambda>grad model data. (params model, model)),
      backward_step = (\<lambda>loss model optimizer data target.
        (model\<lparr>params := params model + 1\<rparr>, optimizer)),
      reduce_lr_on_plateau = (\<lambda>optimizer. ()),
      scheduler_step = (\<lambda>scheduler valid_loss optimizer. (scheduler, optimizer)),
      learning_rate = (\<lambda>optimizer. Fin (1 / 10)),
      correct_predictions = (\<lambda>output target. 0),
      batch_size = (\<lambda>data. 1),
      rnd = Fin\<rparr>"

definition demo_loss :: "nat \<Rightarrow> (nat \<Rightarrow> pyfloat) \<Rightarrow> pyfloat" where
  "demo_loss output target = target output"

definition demo_model :: "nat module" where
  "demo_model = \<lparr>params = 0, training = False, on_cuda = False\<rparr>"

text \<open>A loss that is 1 after the first epoch and 127/128 from then on.\<close>

definition plateau_target :: "nat \<Rightarrow> pyfloat" where
  "plateau_target steps = (if steps = 1 then Fin 1 else Fin (127 / 128))"

definition plateau_loaders :: "(unit, nat \<Rightarrow> pyfloat) data_loaders" where
  "plateau_loaders = \<lparr>train = [((), plateau_target)], valid = [((), plateau_target)]\<rparr>"

text \<open>A loss that halves, then falls to a third, and so on.\<close>

definition falling_target :: "nat \<Rightarrow> pyfloat" where
  "falling_target steps = Fin (1 / real (steps + 1))"

definition falling_loaders :: "(unit, nat \<Rightarrow> pyfloat) data_loaders" where
  "falling_loaders = \<lparr>train = [((), falling_target)], valid = [((), falling_target)]\<rparr>"

definition flat_target :: "real \<Rightarrow> nat \<Rightarrow> pyfloat" where
  "flat_target x steps = Fin x"

definition nan_target :: "nat \<Rightarrow> pyfloat" where
  "nan_target steps = NaN"

definition inf_target :: "nat \<Rightarrow> pyfloat" where
  "inf_target steps = PInf"

definition two_batches :: "(unit \<times> (nat \<Rightarrow> pyfloat)) list" where
  "two_batches = [((), flat_target 1), ((), flat_target 3)]"

definition nan_batches :: "(unit \<times> (nat \<Rightarrow> pyfloat)) list" where
  "nan_batches = [((), flat_target 1), ((), nan_target), ((), flat_target 3)]"

text \<open>A coarse rounding, to eighths, to see what rounding does to the averages.\<close>

definition round_to_eighths :: "real \<Rightarrow> pyfloat" where
  "round_to_eighths x = Fin (real_of_int (round (8 * x)) / 8)"

definition inf_batches :: "(unit \<times> (nat \<Rightarrow> pyfloat)) list" where
  "inf_batches = [((), inf_target), ((), flat_target 1)]"

text \<open>Loaders whose validation set is empty: the validation loss of every epoch is 0.0.\<close>

definition no_valid_loaders :: "(unit, nat \<Rightarrow> pyfloat) data_loaders" where
  "no_valid_loaders = \<lparr>train = [((), flat_target 1)], valid = []\<rparr>"

text \<open>
  A model whose forward pass writes to its own parameters, as a module does that creates or
  rescales them when it is called: each call adds one to the count.
\<close>

definition writing_torch :: "(nat, unit, unit, unit, nat \<Rightarrow> pyfloat, nat) torch" where
  "writing_torch =
     demo_torch\<lparr>forward := (\<lambda>grad model data. (params model, model\<lparr>params := params model + 1\<rparr>))\<rparr>"

section \<open>The loops and their averages\<close>

lemma train_batches_average:
  "fst (train_batches T loss bs k m opt a) =
     running_average (rnd T) k a (train_losses T loss bs m opt)"
  by (induction bs arbitrary: k m opt a) (auto simp: Let_def split: prod.splits)

lemma valid_batches_average:
  "fst (valid_batches T loss bs k m a) =
     running_average (rnd T) k a (eval_losses T loss bs m)"
  by (induction bs arbitrary: k m a) (auto simp: Let_def split: prod.splits)

lemma test_batches_average:
  "fst (test_batches T loss bs k m a c n) = running_average (rnd T) k a (eval_losses T loss bs m)"
  by (induction bs arbitrary: k m a c n) (auto simp: Let_def split: prod.splits)

lemma test_batches_total:
  "fst (snd (snd (test_batches T loss bs k m a c n))) =
     n + sum_list (map (\<lambda>(d, t). batch_size T d) bs)"
  by (induction bs arbitrary: k m a c n) (auto simp: Let_def split: prod.splits)

lemma test_batches_module:
  "snd (snd (snd (test_batches T loss bs k m a c n))) = snd (valid_batches T loss bs k' m a')"
  by (induction bs arbitrary: k k' m a a' c n) (auto simp: Let_def split: prod.splits)

lemma valid_batches_params:
  assumes "\<forall>m d. params (snd (forward T False m d)) = params m"
  shows "params (snd (valid_batches T loss bs k m a)) = params m"
proof (induction bs arbitrary: k m a)
  case Nil
  show ?case by simp
next
  case (Cons b bs)
  obtain d t where b: "b = (d, t)" by (cases b)
  obtain y m' where f: "forward T False m d = (y, m')" by (cases "forward T False m d")
  from assms have "params (snd (forward T False m d)) = params m" by blast
  with f have "params m' = params m" by simp
  with Cons.IH [of _ m'] show ?case by (simp add: b f Let_def)
qed

lemma running_average_exact:
  "running_average Fin k (Fin a) (map Fin ls) = Fin (incremental_mean k a ls)"
  by (induction ls arbitrary: k a) (auto simp: fsub_def int_truediv_def add_ac)

lemma incremental_mean_sum:
  "incremental_mean k a ls * real (k + length ls) = a * real k + sum_list ls"
proof (induction ls arbitrary: k a)
  case Nil
  show ?case by simp
next
  case (Cons l ls)
  have "incremental_mean k a (l # ls) * real (k + length (l # ls)) =
        incremental_mean (k + 1) (a + (l - a) / real (k + 1)) ls * real (k + 1 + length ls)"
    by simp
  also have "\<dots> = (a + (l - a) / real (k + 1)) * real (k + 1) + sum_list ls"
    by (rule Cons.IH)
  also have "\<dots> = a * real k + sum_list (l # ls)"
    by (simp add: field_simps)
  finally show ?case .
qed

lemma incremental_mean_is_mean:
  "ls \<noteq> [] \<Longrightarrow> incremental_mean 0 0 ls = sum_list ls / real (length ls)"
  using incremental_mean_sum [of 0 0 ls] by (simp add: field_simps)

lemma running_average_NaN_start: "running_average r k NaN ls = NaN"
  by (induction ls arbitrary: k) auto

lemma fsub_NaN: "fsub r NaN a = NaN"
  by (simp add: fsub_def)

lemma fmul_NaN_right: "fmul r x NaN = NaN"
  by (cases x) auto

lemma fadd_NaN_right: "fadd r x NaN = NaN"
  by (cases x) auto

lemma running_average_NaN:
  "NaN \<in> set ls \<Longrightarrow> running_average r k a ls = NaN"
  by (induction ls arbitrary: k a)
     (auto simp: fsub_NaN fmul_NaN_right fadd_NaN_right running_average_NaN_start)





lemma train_one_epoch_average:
  "fst (train_one_epoch T bs model opt loss) =
     running_average (rnd T) 0 (Fin 0) (train_loss_values T bs model opt loss)"
  by (simp add: train_one_epoch_def train_loss_values_def train_batches_average)

lemma valid_one_epoch_average:
  "fst (valid_one_epoch T bs model loss) =
     running_average (rnd T) 0 (Fin 0) (eval_loss_values T bs model loss)"
  by (simp add: valid_one_epoch_def eval_loss_values_def valid_batches_average)

lemma test_batches_result:
  "test_batches T loss bs 0 m (Fin 0) 0 0 =
     (running_average (rnd T) 0 (Fin 0) (eval_losses T loss bs m),
      fst (snd (test_batches T loss bs 0 m (Fin 0) 0 0)), samples T bs,
      snd (valid_batches T loss bs 0 m (Fin 0)))"
proof -
  obtain a c n m' where res: "test_batches T loss bs 0 m (Fin 0) 0 0 = (a, c, n, m')"
    by (cases "test_batches T loss bs 0 m (Fin 0) 0 0") auto
  have "a = running_average (rnd T) 0 (Fin 0) (eval_losses T loss bs m)"
    using test_batches_average [of T loss bs 0 m "Fin 0" 0 0] res by simp
  moreover have "n = samples T bs"
    using test_batches_total [of T loss bs 0 m "Fin 0" 0 0] res by (simp add: samples_def)
  moreover have "m' = snd (valid_batches T loss bs 0 m (Fin 0))"
    using test_batches_module [of T loss bs 0 m "Fin 0" 0 0 0 "Fin 0"] res by simp
  ultimately show ?thesis using res by simp
qed

lemma one_epoch_test_returns:
  "samples T bs \<noteq> 0 \<Longrightarrow>
   \<exists>out. one_epoch_test T bs model loss =
     Inr (running_average (rnd T) 0 (Fin 0) (eval_loss_values T bs model loss),
          snd (valid_one_epoch T bs model loss), out)"
  unfolding one_epoch_test_def eval_loss_values_def valid_one_epoch_def Let_def
  by (subst test_batches_result) simp

lemma one_epoch_test_raises:
  "samples T bs = 0 \<Longrightarrow>
   one_epoch_test T bs model loss =
     Inl (ZeroDivisionError, snd (valid_one_epoch T bs model loss),
          [TestLoss (running_average (rnd T) 0 (Fin 0) (eval_loss_values T bs model loss))])"
  unfolding one_epoch_test_def eval_loss_values_def valid_one_epoch_def Let_def
  by (subst test_batches_result) simp

lemma valid_losses_append: "valid_losses (xs @ ys) = valid_losses xs @ valid_losses ys"
  by (induction xs rule: valid_losses.induct) auto

lemma optimize_epoch_raises:
  assumes "save_condition (rnd T) (valid_loss_min st) (epoch_valid_loss T loaders loss st) = Inl e"
  shows "\<exists>st1. optimize_epoch T loaders loss n path track epoch st = Inl (e, st1) \<and>
           saved st1 = saved st \<and> valid_loss_min st1 = valid_loss_min st \<and>
           valid_losses (printed st1) =
             valid_losses (printed st) @ [epoch_valid_loss T loaders loss st]"
proof -
  obtain tl m1 o1 where tr:
    "train_one_epoch T (train loaders) (st_model st) (st_optimizer st) loss = (tl, m1, o1)"
    by (cases "train_one_epoch T (train loaders) (st_model st) (st_optimizer st) loss") auto
  obtain v m2 where va: "valid_one_epoch T (valid loaders) m1 loss = (v, m2)"
    by (cases "valid_one_epoch T (valid loaders) m1 loss") auto
  have v: "epoch_valid_loss T loaders loss st = v"
    by (simp add: epoch_valid_loss_def tr va)
  show ?thesis
    using assms unfolding v
    by (simp add: optimize_epoch_def tr va Let_def valid_losses_append split: prod.splits)
qed

lemma optimize_epoch_returns:
  assumes "save_condition (rnd T) (valid_loss_min st) (epoch_valid_loss T loaders loss st) = Inr c"
  shows "\<exists>st'. optimize_epoch T loaders loss n path track epoch st = Inr st' \<and>
           saved st' = (if c then saved st @ [(path, params (st_model st'))] else saved st) \<and>
           valid_loss_min st' =
             (if c then Some (epoch_valid_loss T loaders loss st) else valid_loss_min st) \<and>
           valid_losses (printed st') =
             valid_losses (printed st) @ [epoch_valid_loss T loaders loss st]"
proof -
  obtain tl m1 o1 where tr:
    "train_one_epoch T (train loaders) (st_model st) (st_optimizer st) loss = (tl, m1, o1)"
    by (cases "train_one_epoch T (train loaders) (st_model st) (st_optimizer st) loss") auto
  obtain v m2 where va: "valid_one_epoch T (valid loaders) m1 loss = (v, m2)"
    by (cases "valid_one_epoch T (valid loaders) m1 loss") auto
  have v: "epoch_valid_loss T loaders loss st = v"
    by (simp add: epoch_valid_loss_def tr va)
  show ?thesis
    using assms unfolding v
    by (simp add: optimize_epoch_def tr va Let_def valid_losses_append split: prod.splits)
qed

lemma save_condition_None: "save_condition r None v = Inr True"
  by (simp add: save_condition_def)

lemma save_condition_Some:
  "save_condition r (Some b) v =
     (if b = Fin 0 then Inl ZeroDivisionError
      else Inr (fgt (ieee_quotient r (fsub r b v) b) (r (1 / 100))))"
  by (simp add: save_condition_def fdiv_def)

lemma optimize_epoch_InrD:
  assumes "optimize_epoch T loaders loss n path track epoch st = Inr st'"
  shows "\<exists>c. save_condition (rnd T) (valid_loss_min st) (epoch_valid_loss T loaders loss st) = Inr c \<and>
           saved st' = (if c then saved st @ [(path, params (st_model st'))] else saved st) \<and>
           valid_loss_min st' =
             (if c then Some (epoch_valid_loss T loaders loss st) else valid_loss_min st) \<and>
           valid_losses (printed st') =
             valid_losses (printed st) @ [epoch_valid_loss T loaders loss st]"
proof (cases "save_condition (rnd T) (valid_loss_min st) (epoch_valid_loss T loaders loss st)")
  case (Inl e)
  from optimize_epoch_raises [OF Inl, of n path track epoch] assms show ?thesis by auto
next
  case (Inr c)
  from optimize_epoch_returns [OF Inr, of n path track epoch] assms Inr show ?thesis by auto
qed

lemma optimize_epoch_InlD:
  assumes "optimize_epoch T loaders loss n path track epoch st = Inl (e, st1)"
  shows "save_condition (rnd T) (valid_loss_min st) (epoch_valid_loss T loaders loss st) = Inl e \<and>
         saved st1 = saved st \<and> valid_loss_min st1 = valid_loss_min st"
proof (cases "save_condition (rnd T) (valid_loss_min st) (epoch_valid_loss T loaders loss st)")
  case (Inl e')
  from optimize_epoch_raises [OF Inl, of n path track epoch] assms Inl show ?thesis by auto
next
  case (Inr c)
  from optimize_epoch_returns [OF Inr, of n path track epoch] assms show ?thesis by auto
qed

lemma optimize_epochs_losses_grow:
  "optimize_epochs T loaders loss n path track es st = Inr st' \<Longrightarrow>
   \<exists>more. valid_losses (printed st') = valid_losses (printed st) @ more"
proof (induction es arbitrary: st)
  case Nil
  then show ?case by simp
next
  case (Cons e es)
  then obtain st1 where e: "optimize_epoch T loaders loss n path track e st = Inr st1"
    and rest: "optimize_epochs T loaders loss n path track es st1 = Inr st'"
    by (auto split: sum.splits)
  from optimize_epoch_InrD [OF e] Cons.IH [OF rest] show ?case by auto
qed

lemma optimize_epochs_saved_grow:
  "\<exists>more. saved (final_state (optimize_epochs T loaders loss n path track es st)) =
            saved st @ more"
proof (induction es arbitrary: st)
  case Nil
  show ?case by (simp add: final_state_def)
next
  case (Cons e es)
  show ?case
  proof (cases "optimize_epoch T loaders loss n path track e st")
    case (Inl raised)
    obtain err st1 where raised: "raised = (err, st1)" by (cases raised)
    from optimize_epoch_InlD [of T loaders loss n path track e st err st1] Inl raised
    show ?thesis by (simp add: final_state_def)
  next
    case (Inr st1)
    from optimize_epoch_InrD [OF Inr] obtain more1 where "saved st1 = saved st @ more1"
      by (auto split: if_splits)
    moreover from Cons.IH [of st1] obtain more2 where
      "saved (final_state (optimize_epochs T loaders loss n path track es st1)) =
         saved st1 @ more2" by blast
    ultimately show ?thesis using Inr by simp
  qed
qed

lemmas demo_defs = demo_torch_def demo_loss_def demo_model_def plateau_target_def
  plateau_loaders_def falling_target_def falling_loaders_def flat_target_def nan_target_def
  inf_target_def two_batches_def nan_batches_def inf_batches_def no_valid_loaders_def
  writing_torch_def optimize_def optimize_epoch_def initial_run_def
  final_state_def train_one_epoch_def valid_one_epoch_def one_epoch_test_def cuda_def
  save_condition_def fdiv_def fsub_def int_truediv_def Let_def upto.simps

section \<open>The invariants of the checkpoint rule\<close>

lemma tracks_best_initial: "tracks_best (initial_run T model optimizer)"
  by (simp add: tracks_best_def initial_run_def)

lemma near_best_initial: "near_best (initial_run T model optimizer)"
  by (simp add: near_best_def initial_run_def)

lemma tracks_best_step:
  assumes "optimize_epoch T loaders loss n path track e st = Inr st'" and "tracks_best st"
  shows "tracks_best st' \<and> valid_loss_min st' \<noteq> None"
proof -
  from optimize_epoch_InrD [OF assms(1)] obtain c where
    c: "save_condition (rnd T) (valid_loss_min st) (epoch_valid_loss T loaders loss st) = Inr c"
    and m: "valid_loss_min st' =
      (if c then Some (epoch_valid_loss T loaders loss st) else valid_loss_min st)"
    and l: "valid_losses (printed st') =
      valid_losses (printed st) @ [epoch_valid_loss T loaders loss st]"
    by blast
  show ?thesis
  proof (cases c)
    case True
    then show ?thesis by (simp add: tracks_best_def m l)
  next
    case False
    with c obtain best where "valid_loss_min st = Some best"
      by (cases "valid_loss_min st") (auto simp: save_condition_None)
    with False assms(2) show ?thesis by (simp add: tracks_best_def m l)
  qed
qed

lemma tracks_best_run:
  assumes "optimize_epochs T loaders loss n path track es st = Inr st'" and "tracks_best st"
  shows "tracks_best st' \<and> (es \<noteq> [] \<longrightarrow> valid_loss_min st' \<noteq> None)"
  using assms
proof (induction es arbitrary: st)
  case Nil
  then show ?case by simp
next
  case (Cons e es)
  then obtain st1 where e: "optimize_epoch T loaders loss n path track e st = Inr st1"
    and rest: "optimize_epochs T loaders loss n path track es st1 = Inr st'"
    by (auto split: sum.splits)
  from tracks_best_step [OF e Cons.prems(2)]
  have t1: "tracks_best st1" and m1: "valid_loss_min st1 \<noteq> None" by simp_all
  from Cons.IH [OF rest t1] have t': "tracks_best st'"
    and m': "es \<noteq> [] \<longrightarrow> valid_loss_min st' \<noteq> None" by simp_all
  show ?case
  proof (cases es)
    case Nil
    with rest m1 t' show ?thesis by simp
  next
    case (Cons a list)
    with m' t' show ?thesis by simp
  qed
qed

lemma exact_save_condition:
  assumes "0 < x"
  shows "fgt (ieee_quotient Fin (fsub Fin (Fin x) (Fin y)) (Fin x)) (Fin (1 / 100)) \<longleftrightarrow>
         y < 99 / 100 * x"
proof -
  have "1 / 100 < (x - y) / x \<longleftrightarrow> 1 / 100 * x < x - y"
    using assms by (simp add: pos_less_divide_eq)
  also have "\<dots> \<longleftrightarrow> y < 99 / 100 * x" by auto
  finally show ?thesis by (simp add: fsub_def)
qed

lemma near_best_step:
  assumes exact: "rnd T = Fin"
    and e: "optimize_epoch T loaders loss n path track ep st = Inr st'"
    and tb: "tracks_best st" and nb: "near_best st"
    and pos: "list_all positive_loss (valid_losses (printed st'))"
  shows "near_best st'"
proof -
  let ?v = "epoch_valid_loss T loaders loss st"
  from optimize_epoch_InrD [OF e] obtain c where
    c: "save_condition (rnd T) (valid_loss_min st) ?v = Inr c"
    and m: "valid_loss_min st' = (if c then Some ?v else valid_loss_min st)"
    and l: "valid_losses (printed st') = valid_losses (printed st) @ [?v]"
    by blast
  from pos l obtain y where y: "?v = Fin y" "0 < y"
    by (cases ?v) (auto simp: positive_loss_def)
  have vv: "within_one_percent ?v ?v"
    using y by (simp add: within_one_percent_def)
  show ?thesis
  proof (cases "valid_loss_min st")
    case None
    with tb have "valid_losses (printed st) = []" by (simp add: tracks_best_def)
    moreover from None c have "c" by (simp add: save_condition_None)
    ultimately show ?thesis using vv by (simp add: near_best_def m l)
  next
    case (Some best)
    with tb have "best \<in> set (valid_losses (printed st))" by (simp add: tracks_best_def)
    with pos l have "positive_loss best" by (auto simp: list_all_iff)
    then obtain x where x: "best = Fin x" "0 < x"
      by (cases best) (auto simp: positive_loss_def)
    from c have cond: "c \<longleftrightarrow> y < 99 / 100 * x"
      using exact_save_condition [OF x(2), of y] x(2)
      by (auto simp: Some save_condition_Some x(1) y(1) exact)
    from nb Some have old: "list_all (within_one_percent best) (valid_losses (printed st))"
      by (simp add: near_best_def)
    show ?thesis
    proof (cases c)
      case True
      with cond have lt: "y < 99 / 100 * x" by simp
      have "within_one_percent ?v u" if "u \<in> set (valid_losses (printed st))" for u
      proof -
        from old that have "within_one_percent best u" by (simp add: list_all_iff)
        then obtain z where z: "u = Fin z" "99 / 100 * x \<le> z"
          by (cases u) (auto simp: within_one_percent_def x)
        have "99 / 100 * y \<le> y" using y(2) by simp
        with lt z(2) have "99 / 100 * y \<le> z" by linarith
        then show ?thesis by (simp add: within_one_percent_def y z)
      qed
      with vv True show ?thesis by (simp add: near_best_def m l list_all_iff)
    next
      case False
      with cond have "99 / 100 * x \<le> y" by simp
      then have "within_one_percent best ?v" by (simp add: within_one_percent_def x y)
      with old False Some show ?thesis by (simp add: near_best_def m l)
    qed
  qed
qed

lemma near_best_run:
  assumes "rnd T = Fin"
    and "optimize_epochs T loaders loss n path track es st = Inr st'"
    and "tracks_best st" and "near_best st"
    and "list_all positive_loss (valid_losses (printed st'))"
  shows "near_best st'"
  using assms(2-)
proof (induction es arbitrary: st)
  case Nil
  then show ?case by simp
next
  case (Cons e es)
  then obtain st1 where e: "optimize_epoch T loaders loss n path track e st = Inr st1"
    and rest: "optimize_epochs T loaders loss n path track es st1 = Inr st'"
    by (auto split: sum.splits)
  from optimize_epochs_losses_grow [OF rest] Cons.prems(4)
  have pos1: "list_all positive_loss (valid_losses (printed st1))" by auto
  from tracks_best_step [OF e Cons.prems(2)] have t1: "tracks_best st1" by simp
  from near_best_step [OF assms(1) e Cons.prems(2,3) pos1] have n1: "near_best st1" .
  from Cons.IH [OF rest t1 n1 Cons.prems(4)] show ?case .
qed

lemma one_epoch_test_outcome:
  "(\<exists>out. one_epoch_test T bs model loss =
      Inr (running_average (rnd T) 0 (Fin 0) (eval_loss_values T bs model loss),
           snd (valid_one_epoch T bs model loss), out)) \<or>
   one_epoch_test T bs model loss =
      Inl (ZeroDivisionError, snd (valid_one_epoch T bs model loss),
           [TestLoss (running_average (rnd T) 0 (Fin 0) (eval_loss_values T bs model loss))])"
  using one_epoch_test_returns [of T bs model loss] one_epoch_test_raises [of T bs model loss]
  by blast

lemma zero_minimum_raises:
  assumes "valid_loss_min st = Some (Fin 0)"
  shows "\<exists>st1. optimize_epoch T loaders loss n path track epoch st =
                 Inl (ZeroDivisionError, st1) \<and>
               saved st1 = saved st \<and> valid_loss_min st1 = valid_loss_min st"
proof -
  have "save_condition (rnd T) (valid_loss_min st) (epoch_valid_loss T loaders loss st) =
          Inl ZeroDivisionError"
    by (simp add: assms save_condition_Some)
  from optimize_epoch_raises [OF this, of n path track epoch] show ?thesis by blast
qed

lemma loops_agree_on_losses:
  assumes "train_loss_values T train_batches_list model1 optimizer loss = ls"
    and "eval_loss_values T batches model2 loss = ls"
    and "samples T batches \<noteq> 0"
  shows "fst (train_one_epoch T train_batches_list model1 optimizer loss) =
           fst (valid_one_epoch T batches model2 loss) \<and>
         (\<exists>out. one_epoch_test T batches model2 loss =
            Inr (fst (valid_one_epoch T batches model2 loss),
                 snd (valid_one_epoch T batches model2 loss), out))"
  using one_epoch_test_returns [OF assms(3), of model2 loss] assms(1,2)
  by (simp add: train_one_epoch_average valid_one_epoch_average)

lemma checkpoint_rule_returning:
  assumes "valid_loss_min st \<noteq> Some (Fin 0)"
  shows "\<exists>st'. optimize_epoch T loaders loss n_epochs save_path interactive_tracking epoch st =
              Inr st' \<and>
           (if valid_loss_min st = None \<or>
               (\<exists>best. valid_loss_min st = Some best \<and>
                  fgt (ieee_quotient (rnd T) (fsub (rnd T) best (epoch_valid_loss T loaders loss st)) best)
                      (rnd T (1 / 100)))
            then saved st' = saved st @ [(save_path, params (st_model st'))] \<and>
                 valid_loss_min st' = Some (epoch_valid_loss T loaders loss st)
            else saved st' = saved st \<and> valid_loss_min st' = valid_loss_min st)"
proof (cases "valid_loss_min st")
  case None
  from optimize_epoch_returns [of T st loaders loss True n_epochs save_path interactive_tracking epoch]
  show ?thesis by (auto simp: None save_condition_None)
next
  case (Some best)
  with assms have nz: "best \<noteq> Fin 0" by simp
  let ?c = "fgt (ieee_quotient (rnd T) (fsub (rnd T) best (epoch_valid_loss T loaders loss st)) best)
              (rnd T (1 / 100))"
  have "save_condition (rnd T) (valid_loss_min st) (epoch_valid_loss T loaders loss st) = Inr ?c"
    by (simp add: Some save_condition_Some nz)
  from optimize_epoch_returns [OF this, of n_epochs save_path interactive_tracking epoch]
  show ?thesis by (auto simp: Some)
qed

lemma zero_minimum_is_reached:
  "optimize demo_torch no_valid_loaders demo_model () demo_loss 2 ''best.pt'' False =
     Inl (ZeroDivisionError,
          final_state (optimize demo_torch no_valid_loaders demo_model () demo_loss 2
            ''best.pt'' False)) \<and>
   valid_loss_min (final_state (optimize demo_torch no_valid_loaders demo_model () demo_loss 2
     ''best.pt'' False)) = Some (Fin 0) \<and>
   saved (final_state (optimize demo_torch no_valid_loaders demo_model () demo_loss 2
     ''best.pt'' False)) = [(''best.pt'', 1)]"
  by (simp add: demo_defs)

lemma arithmetic_mean_exact:
  assumes "ls \<noteq> []"
  shows "arithmetic_mean Fin (map Fin ls) = Fin (sum_list ls / real (length ls))"
proof -
  have "foldl (fadd Fin) (Fin a) (map Fin xs) = Fin (a + sum_list xs)" for a xs
    by (induction xs arbitrary: a) (auto simp: add.assoc)
  from this [of 0 ls] show ?thesis by (simp add: arithmetic_mean_def)
qed

lemma rounding_moves_the_average:
  "running_average round_to_eighths 0 (Fin 0) [Fin 1, Fin 2, Fin 4] = Fin (5 / 2) \<and>
   arithmetic_mean round_to_eighths [Fin 1, Fin 2, Fin 4] = Fin (19 / 8)"
  by (simp add: round_to_eighths_def arithmetic_mean_def fsub_def int_truediv_def round_def)

section \<open>The claims\<close>

text \<open>
  Claim C1. In every epoch, the model state is saved to \<^verbatim>\<open>save_path\<close> if and only if the
  stored minimum is \<^verbatim>\<open>None\<close> or \<^verbatim>\<open>(best - current) / best\<close> has a value and that value is
  \<^verbatim>\<open>> 0.01\<close>, where \<open>current\<close> is the validation loss of the epoch; when it saves, the
  stored minimum becomes the current validation loss, and when it does not, the stored
  minimum and the saved files stay as they were. The division has no value exactly when the
  stored minimum is 0.0: the epoch then raises \<^verbatim>\<open>ZeroDivisionError\<close> (and has saved nothing),
  and in every other state it runs to its end. \<open>st'\<close> is the state in which the epoch ends.
\<close>

theorem checkpoint_rule:
  "(let current = epoch_valid_loss T loaders loss st;
        outcome = optimize_epoch T loaders loss n_epochs save_path interactive_tracking epoch st;
        st' = final_state outcome
    in (if valid_loss_min st = None \<or>
           (\<exists>best q. valid_loss_min st = Some best \<and>
              fdiv (rnd T) (fsub (rnd T) best current) best = Inr q \<and> fgt q (rnd T (1 / 100)))
        then saved st' = saved st @ [(save_path, params (st_model st'))] \<and>
             valid_loss_min st' = Some current
        else saved st' = saved st \<and> valid_loss_min st' = valid_loss_min st) \<and>
       (if valid_loss_min st = Some (Fin 0)
        then outcome = Inl (ZeroDivisionError, st')
        else outcome = Inr st'))"
proof -
  let ?v = "epoch_valid_loss T loaders loss st"
  let ?out = "optimize_epoch T loaders loss n_epochs save_path interactive_tracking epoch st"
  let ?st' = "final_state ?out"
  let ?cond = "valid_loss_min st = None \<or>
           (\<exists>best q. valid_loss_min st = Some best \<and>
              fdiv (rnd T) (fsub (rnd T) best ?v) best = Inr q \<and> fgt q (rnd T (1 / 100)))"
  have "(if ?cond
         then saved ?st' = saved st @ [(save_path, params (st_model ?st'))] \<and>
              valid_loss_min ?st' = Some ?v
         else saved ?st' = saved st \<and> valid_loss_min ?st' = valid_loss_min st) \<and>
        (if valid_loss_min st = Some (Fin 0)
         then ?out = Inl (ZeroDivisionError, ?st')
         else ?out = Inr ?st')"
  proof (cases "valid_loss_min st = Some (Fin 0)")
    case True
    from zero_minimum_raises
      [OF True, of T loaders loss n_epochs save_path interactive_tracking epoch]
    obtain st1 where out: "?out = Inl (ZeroDivisionError, st1)"
      and sv: "saved st1 = saved st" and vm: "valid_loss_min st1 = valid_loss_min st"
      by blast
    have st': "?st' = st1" by (simp add: out final_state_def)
    have ncond: "\<not> ?cond" by (simp add: True fdiv_def)
    show ?thesis
      unfolding st' if_not_P [OF ncond] if_P [OF True]
      by (intro conjI sv vm out)
  next
    case False
    from checkpoint_rule_returning
      [OF False, of T loaders loss n_epochs save_path interactive_tracking epoch]
    obtain st2 where out: "?out = Inr st2"
      and rule: "if valid_loss_min st = None \<or>
          (\<exists>best. valid_loss_min st = Some best \<and>
             fgt (ieee_quotient (rnd T) (fsub (rnd T) best ?v) best) (rnd T (1 / 100)))
        then saved st2 = saved st @ [(save_path, params (st_model st2))] \<and>
             valid_loss_min st2 = Some ?v
        else saved st2 = saved st \<and> valid_loss_min st2 = valid_loss_min st"
      by blast
    have st': "?st' = st2" by (simp add: out final_state_def)
    have same: "?cond \<longleftrightarrow>
        (valid_loss_min st = None \<or>
         (\<exists>best. valid_loss_min st = Some best \<and>
            fgt (ieee_quotient (rnd T) (fsub (rnd T) best ?v) best) (rnd T (1 / 100))))"
    proof (cases "valid_loss_min st")
      case None
      then show ?thesis by simp
    next
      case (Some b)
      with False have "b \<noteq> Fin 0" by simp
      then have "fdiv (rnd T) (fsub (rnd T) b ?v) b =
          Inr (ieee_quotient (rnd T) (fsub (rnd T) b ?v) b)"
        by (simp add: fdiv_def)
      then show ?thesis by (simp add: Some)
    qed
    show ?thesis
      unfolding st' same if_not_P [OF False]
      by (rule conjI [OF rule out])
  qed
  then show ?thesis by (simp only: Let_def)
qed

text \<open>
  Claim C2, as stated, fails: for the batch losses \<open>inf\<close> and 1.0 the running average of
  each loop is NaN (\<open>inf + 0.5 * (1.0 - inf)\<close>), while their arithmetic mean is \<open>inf\<close>.
\<close>

theorem infinite_loss_average_is_nan:
  "train_loss_values demo_torch inf_batches demo_model () demo_loss = [PInf, Fin 1] \<and>
   fst (train_one_epoch demo_torch inf_batches demo_model () demo_loss) = NaN \<and>
   eval_loss_values demo_torch inf_batches demo_model demo_loss = [PInf, Fin 1] \<and>
   fst (valid_one_epoch demo_torch inf_batches demo_model demo_loss) = NaN \<and>
   arithmetic_mean Fin [PInf, Fin 1] = PInf"
  by (simp add: demo_defs train_loss_values_def eval_loss_values_def arithmetic_mean_def
        signed_inf_def)

text \<open>
  Claim C2, amended. For every non-empty sequence of finite batch losses, and with exact
  arithmetic (that is, up to the rounding of the float operations), the average that
  \<^verbatim>\<open>train_one_epoch\<close> holds at the end of its loop is the value of the recurrence
  \<open>avg\<^sub>k = avg\<^sub>k\<^sub>-\<^sub>1 + (loss\<^sub>k - avg\<^sub>k\<^sub>-\<^sub>1) / k\<close> from \<open>avg\<^sub>0 = 0\<close>, which is the arithmetic mean of
  the losses; the same holds for \<^verbatim>\<open>valid_one_epoch\<close> and for the test loss of
  \<^verbatim>\<open>one_epoch_test\<close>.
\<close>

theorem running_average_is_mean:
  assumes "rnd T = Fin" and "ls \<noteq> []"
  shows "incremental_mean 0 0 ls = sum_list ls / real (length ls) \<and>
    arithmetic_mean Fin (map Fin ls) = Fin (incremental_mean 0 0 ls) \<and>
    (train_loss_values T bs model optimizer loss = map Fin ls \<longrightarrow>
       fst (train_one_epoch T bs model optimizer loss) = Fin (incremental_mean 0 0 ls)) \<and>
    (eval_loss_values T bs model loss = map Fin ls \<longrightarrow>
       fst (valid_one_epoch T bs model loss) = Fin (incremental_mean 0 0 ls) \<and>
       ((\<exists>out. one_epoch_test T bs model loss =
           Inr (Fin (incremental_mean 0 0 ls), snd (valid_one_epoch T bs model loss), out)) \<or>
        one_epoch_test T bs model loss =
           Inl (ZeroDivisionError, snd (valid_one_epoch T bs model loss),
                [TestLoss (Fin (incremental_mean 0 0 ls))])))"
proof (intro conjI impI)
  show "incremental_mean 0 0 ls = sum_list ls / real (length ls)"
    using assms(2) by (rule incremental_mean_is_mean)
next
  show "arithmetic_mean Fin (map Fin ls) = Fin (incremental_mean 0 0 ls)"
    using assms(2) by (simp add: arithmetic_mean_exact incremental_mean_is_mean)
next
  assume "train_loss_values T bs model optimizer loss = map Fin ls"
  then show "fst (train_one_epoch T bs model optimizer loss) = Fin (incremental_mean 0 0 ls)"
    by (simp add: train_one_epoch_average assms(1) running_average_exact)
next
  assume ev: "eval_loss_values T bs model loss = map Fin ls"
  then show "fst (valid_one_epoch T bs model loss) = Fin (incremental_mean 0 0 ls)"
    by (simp add: valid_one_epoch_average assms(1) running_average_exact)
  from one_epoch_test_outcome [of T bs model loss]
  show "(\<exists>out. one_epoch_test T bs model loss =
           Inr (Fin (incremental_mean 0 0 ls), snd (valid_one_epoch T bs model loss), out)) \<or>
        one_epoch_test T bs model loss =
           Inl (ZeroDivisionError, snd (valid_one_epoch T bs model loss),
                [TestLoss (Fin (incremental_mean 0 0 ls))])"
    by (simp add: ev assms(1) running_average_exact)
qed

theorem running_average_is_mean_witness:
  "rnd demo_torch = Fin \<and> [1, 3] \<noteq> ([] :: real list) \<and>
   train_loss_values demo_torch two_batches demo_model () demo_loss = map Fin [1, 3] \<and>
   eval_loss_values demo_torch two_batches demo_model demo_loss = map Fin [1, 3] \<and>
   incremental_mean 0 0 [1, 3] = 2 \<and> arithmetic_mean Fin [Fin 1, Fin 3] = Fin 2 \<and>
   fst (train_one_epoch demo_torch two_batches demo_model () demo_loss) = Fin 2 \<and>
   fst (valid_one_epoch demo_torch two_batches demo_model demo_loss) = Fin 2"
  using running_average_is_mean [of demo_torch "[1, 3]" two_batches demo_model "()" demo_loss]
  by (simp add: demo_defs train_loss_values_def eval_loss_values_def)

text \<open>
  Claim C3, as stated, fails: with validation losses 1 and then 127/128, the second epoch
  improves by less than one percent, nothing is stored, and the stored minimum 1 is not the
  least validation loss seen, 127/128.
\<close>

theorem stored_minimum_not_least:
  "valid_loss_min (final_state
     (optimize demo_torch plateau_loaders demo_model () demo_loss 2 ''best.pt'' False)) =
     Some (Fin 1) \<and>
   loss_minimum (valid_losses (printed (final_state
     (optimize demo_torch plateau_loaders demo_model () demo_loss 2 ''best.pt'' False)))) =
     Some (Fin (127 / 128))"
  by (simp add: demo_defs)

text \<open>
  Claim C3, amended. After every epoch \<open>k \<ge> 1\<close> the stored minimum is one of the validation
  losses of the epochs 1 to \<open>k\<close>; and when these losses are positive and arithmetic is exact,
  none of them is more than one percent below the stored minimum.
\<close>

theorem stored_minimum_near_best:
  assumes "optimize_epochs T loaders loss n_epochs save_path interactive_tracking [1..k]
             (initial_run T model optimizer) = Inr st"
    and "1 \<le> k"
  shows "\<exists>best. valid_loss_min st = Some best \<and> best \<in> set (valid_losses (printed st)) \<and>
           (rnd T = Fin \<and> list_all positive_loss (valid_losses (printed st)) \<longrightarrow>
              list_all (within_one_percent best) (valid_losses (printed st)))"
proof -
  from assms(2) have ne: "[1..k] \<noteq> []" by (simp add: upto.simps)
  from tracks_best_run [OF assms(1) tracks_best_initial] ne
  obtain best where best: "valid_loss_min st = Some best"
    and mem: "best \<in> set (valid_losses (printed st))"
    by (cases "valid_loss_min st") (auto simp: tracks_best_def)
  have "list_all (within_one_percent best) (valid_losses (printed st))"
    if "rnd T = Fin" "list_all positive_loss (valid_losses (printed st))"
    using near_best_run [OF that(1) assms(1) tracks_best_initial near_best_initial that(2)] best
    by (simp add: near_best_def)
  with best mem show ?thesis by blast
qed

theorem stored_minimum_near_best_witness:
  "valid_loss_min (final_state
     (optimize_epochs demo_torch plateau_loaders demo_loss 2 ''best.pt'' False [1..2]
        (initial_run demo_torch demo_model ()))) = Some (Fin 1) \<and>
   valid_losses (printed (final_state
     (optimize_epochs demo_torch plateau_loaders demo_loss 2 ''best.pt'' False [1..2]
        (initial_run demo_torch demo_model ())))) = [Fin 1, Fin (127 / 128)] \<and>
   within_one_percent (Fin 1) (Fin (127 / 128))"
proof -
  have run: "optimize_epochs demo_torch plateau_loaders demo_loss 2 ''best.pt'' False [1..2]
      (initial_run demo_torch demo_model ()) =
    Inr (final_state (optimize_epochs demo_torch plateau_loaders demo_loss 2 ''best.pt'' False
      [1..2] (initial_run demo_torch demo_model ())))"
    by (simp add: demo_defs)
  have k: "(1 :: int) \<le> 2" by simp
  from stored_minimum_near_best [OF run k] show ?thesis
    by (simp add: demo_defs within_one_percent_def positive_loss_def)
qed

text \<open>
  Claim C4, as stated, fails: the first epoch writes a checkpoint although there is no
  previous minimum that its validation loss could improve on.
\<close>

theorem first_epoch_saves_unconditionally:
  "valid_loss_min (initial_run demo_torch demo_model ()) = None \<and>
   saved (initial_run demo_torch demo_model ()) = [] \<and>
   saved (final_state
     (optimize demo_torch plateau_loaders demo_model () demo_loss 1 ''best.pt'' False)) =
     [(''best.pt'', 1)]"
  by (simp add: demo_defs)

text \<open>
  Claim C4, amended. In a run of \<^verbatim>\<open>optimize\<close>, an epoch writes a checkpoint only if it is
  the first one, or \<^verbatim>\<open>(previous_min - current) / previous_min > 0.01\<close> holds as the code
  computes it; for a positive previous minimum and exact arithmetic this means that the
  current validation loss is below 99 percent of the previous minimum.
\<close>

theorem save_only_on_improvement:
  assumes "optimize_epochs T loaders loss n_epochs save_path interactive_tracking es
             (initial_run T model optimizer) = Inr st"
    and "optimize_epoch T loaders loss n_epochs save_path interactive_tracking epoch st = Inr st'"
    and "saved st' \<noteq> saved st"
  shows "es = [] \<or>
         (\<exists>best. valid_loss_min st = Some best \<and>
            fgt (ieee_quotient (rnd T) (fsub (rnd T) best (epoch_valid_loss T loaders loss st)) best)
                (rnd T (1 / 100)) \<and>
            (\<forall>x. rnd T = Fin \<and> best = Fin x \<and> 0 < x \<longrightarrow>
               epoch_valid_loss T loaders loss st = NInf \<or>
               (\<exists>y. epoch_valid_loss T loaders loss st = Fin y \<and> y < 99 / 100 * x)))"
proof (cases "es = []")
  case True
  then show ?thesis by simp
next
  case False
  let ?v = "epoch_valid_loss T loaders loss st"
  from tracks_best_run [OF assms(1) tracks_best_initial] False
  obtain best where best: "valid_loss_min st = Some best"
    by (cases "valid_loss_min st") auto
  from optimize_epoch_InrD [OF assms(2)] assms(3)
  have c: "save_condition (rnd T) (valid_loss_min st) ?v = Inr True"
    by (auto split: if_splits)
  then have nz: "best \<noteq> Fin 0"
    and gt: "fgt (ieee_quotient (rnd T) (fsub (rnd T) best ?v) best) (rnd T (1 / 100))"
    by (auto simp: best save_condition_Some split: if_splits)
  have "?v = NInf \<or> (\<exists>y. ?v = Fin y \<and> y < 99 / 100 * x)"
    if "rnd T = Fin" "best = Fin x" "0 < x" for x
  proof (cases ?v)
    case (Fin y)
    with gt that exact_save_condition [OF that(3), of y] show ?thesis by simp
  next
    case PInf
    with gt that show ?thesis by (simp add: fsub_def signed_inf_def)
  next
    case NInf
    then show ?thesis by simp
  next
    case NaN
    with gt that show ?thesis by (simp add: fsub_def)
  qed
  with best gt show ?thesis by blast
qed

theorem save_only_on_improvement_witness:
  "valid_loss_min (final_state
     (optimize_epochs demo_torch falling_loaders demo_loss 2 ''best.pt'' False [1]
        (initial_run demo_torch demo_model ()))) = Some (Fin (1 / 2)) \<and>
   epoch_valid_loss demo_torch falling_loaders demo_loss (final_state
     (optimize_epochs demo_torch falling_loaders demo_loss 2 ''best.pt'' False [1]
        (initial_run demo_torch demo_model ()))) = Fin (1 / 3) \<and>
   saved (final_state
     (optimize_epochs demo_torch falling_loaders demo_loss 2 ''best.pt'' False [1, 2]
        (initial_run demo_torch demo_model ()))) = [(''best.pt'', 1), (''best.pt'', 2)]"
proof -
  let ?st = "final_state
     (optimize_epochs demo_torch falling_loaders demo_loss 2 ''best.pt'' False [1]
        (initial_run demo_torch demo_model ()))"
  let ?st' = "final_state
     (optimize_epoch demo_torch falling_loaders demo_loss 2 ''best.pt'' False 2 ?st)"
  have run: "optimize_epochs demo_torch falling_loaders demo_loss 2 ''best.pt'' False [1]
        (initial_run demo_torch demo_model ()) = Inr ?st"
    by (simp add: demo_defs)
  have ep: "optimize_epoch demo_torch falling_loaders demo_loss 2 ''best.pt'' False 2 ?st =
        Inr ?st'"
    by (simp add: demo_defs)
  have sv: "saved ?st' \<noteq> saved ?st"
    by (simp add: demo_defs)
  from save_only_on_improvement [OF run ep sv] show ?thesis
    by (simp add: demo_defs epoch_valid_loss_def)
qed

text \<open>
  Claim C5, as stated, fails: with \<^verbatim>\<open>n_epochs = 0\<close> the call returns and has written no
  checkpoint.
\<close>

theorem no_checkpoint_without_epochs:
  "saved (final_state
     (optimize demo_torch plateau_loaders demo_model () demo_loss 0 ''best.pt'' False)) = []"
  by (simp add: demo_defs)

text \<open>
  Claim C5, amended. For \<^verbatim>\<open>n_epochs \<ge> 1\<close> the first epoch writes a checkpoint to
  \<^verbatim>\<open>save_path\<close>, so at least one has been written when the call ends, whether it
  returns or raises in a later epoch.
\<close>

theorem checkpoint_in_first_epoch:
  assumes "1 \<le> n_epochs"
  shows "\<exists>state_dict later.
           saved (final_state
             (optimize T loaders model optimizer loss n_epochs save_path interactive_tracking)) =
           (save_path, state_dict) # later"
proof -
  have epochs: "[1..n_epochs] = 1 # [2..n_epochs]"
    using assms by (simp add: upto.simps)
  let ?init = "initial_run T model optimizer"
  have "save_condition (rnd T) (valid_loss_min ?init) (epoch_valid_loss T loaders loss ?init) =
          Inr True"
    by (simp add: initial_run_def save_condition_None)
  from optimize_epoch_returns [OF this, of n_epochs save_path interactive_tracking 1]
  obtain st1 where first:
      "optimize_epoch T loaders loss n_epochs save_path interactive_tracking 1 ?init = Inr st1"
    and saved1: "saved st1 = [(save_path, params (st_model st1))]"
    by (auto simp: initial_run_def)
  from optimize_epochs_saved_grow
    [of T loaders loss n_epochs save_path interactive_tracking "[2..n_epochs]" st1]
  obtain later where
    "saved (final_state (optimize_epochs T loaders loss n_epochs save_path interactive_tracking
        [2..n_epochs] st1)) = saved st1 @ later"
    by blast
  then show ?thesis
    by (simp add: optimize_def epochs first saved1)
qed

theorem checkpoint_in_first_epoch_witness:
  "(1 :: int) \<le> 2 \<and>
   saved (final_state
     (optimize demo_torch falling_loaders demo_model () demo_loss 2 ''best.pt'' False)) =
   [(''best.pt'', 1), (''best.pt'', 2)]"
  using checkpoint_in_first_epoch
    [of 2 demo_torch falling_loaders demo_model "()" demo_loss "''best.pt''" False]
  by (simp add: demo_defs)




text \<open>
  Claim C7 at an empty loader. \<^verbatim>\<open>train_one_epoch\<close> and \<^verbatim>\<open>valid_one_epoch\<close> return 0.0 for
  the empty sequence of batch losses; \<^verbatim>\<open>one_epoch_test\<close> prints the test loss 0.0 and then
  raises \<^verbatim>\<open>ZeroDivisionError\<close> in \<^verbatim>\<open>100. * correct / total\<close>, so it returns no loss.
\<close>

theorem empty_test_loader_raises:
  "fst (train_one_epoch T [] model optimizer loss) = Fin 0 \<and>
   fst (valid_one_epoch T [] model loss) = Fin 0 \<and>
   one_epoch_test T [] model loss =
     Inl (ZeroDivisionError, cuda T (model\<lparr>training := False\<rparr>), [TestLoss (Fin 0)])"
  by (simp add: train_one_epoch_def valid_one_epoch_def one_epoch_test_def Let_def)

text \<open>
  Claim C8. If the loss of some batch is NaN, the loss that the loop computes is NaN:
  \<^verbatim>\<open>train_one_epoch\<close> and \<^verbatim>\<open>valid_one_epoch\<close> return NaN, and \<^verbatim>\<open>one_epoch_test\<close>
  returns NaN, or prints NaN as the test loss when the accuracy then raises.
\<close>

theorem nan_loss_propagates:
  "(NaN \<in> set (train_loss_values T bs model optimizer loss) \<longrightarrow>
      fst (train_one_epoch T bs model optimizer loss) = NaN) \<and>
   (NaN \<in> set (eval_loss_values T bs model loss) \<longrightarrow>
      fst (valid_one_epoch T bs model loss) = NaN \<and>
      ((\<exists>out. one_epoch_test T bs model loss =
          Inr (NaN, snd (valid_one_epoch T bs model loss), out)) \<or>
       one_epoch_test T bs model loss =
          Inl (ZeroDivisionError, snd (valid_one_epoch T bs model loss), [TestLoss NaN])))"
proof (intro conjI impI)
  assume "NaN \<in> set (train_loss_values T bs model optimizer loss)"
  then show "fst (train_one_epoch T bs model optimizer loss) = NaN"
    by (simp add: train_one_epoch_average running_average_NaN)
next
  assume ev: "NaN \<in> set (eval_loss_values T bs model loss)"
  then show "fst (valid_one_epoch T bs model loss) = NaN"
    by (simp add: valid_one_epoch_average running_average_NaN)
  from one_epoch_test_outcome [of T bs model loss]
  show "(\<exists>out. one_epoch_test T bs model loss =
          Inr (NaN, snd (valid_one_epoch T bs model loss), out)) \<or>
       one_epoch_test T bs model loss =
          Inl (ZeroDivisionError, snd (valid_one_epoch T bs model loss), [TestLoss NaN])"
    by (simp add: running_average_NaN [OF ev])
qed

theorem nan_loss_propagates_witness:
  "NaN \<in> set (train_loss_values demo_torch nan_batches demo_model () demo_loss) \<and>
   NaN \<in> set (eval_loss_values demo_torch nan_batches demo_model demo_loss) \<and>
   fst (train_one_epoch demo_torch nan_batches demo_model () demo_loss) = NaN \<and>
   fst (valid_one_epoch demo_torch nan_batches demo_model demo_loss) = NaN"
  using nan_loss_propagates [of demo_torch nan_batches demo_model "()" demo_loss]
  by (simp add: demo_defs train_loss_values_def eval_loss_values_def)

text \<open>
  Claim C9, as stated, fails: with a model whose forward pass writes to its parameters,
  \<^verbatim>\<open>valid_one_epoch\<close> over two batches returns with parameters that have changed, and so
  does \<^verbatim>\<open>one_epoch_test\<close>.
\<close>

theorem forward_pass_may_write_parameters:
  "params demo_model = 0 \<and>
   params (snd (valid_one_epoch writing_torch two_batches demo_model demo_loss)) = 2 \<and>
   one_epoch_test writing_torch two_batches demo_model demo_loss =
     Inr (Fin 2, \<lparr>params = 2, training = False, on_cuda = False\<rparr>,
          [TestLoss (Fin 2), TestAccuracy 0 2])"
  by (simp add: demo_defs)

text \<open>
  Claim C9, amended. For every model whose forward pass, made with gradient recording off
  as inside \<^verbatim>\<open>torch.no_grad\<close>, does not itself change the trainable parameters,
  \<^verbatim>\<open>valid_one_epoch\<close> and \<^verbatim>\<open>one_epoch_test\<close> leave the parameters as they were, for every
  loader, also when the test raises: the procedures make no optimizer step and only set the
  mode and the device.
\<close>

theorem evaluation_keeps_parameters:
  assumes "\<forall>m d. params (snd (forward T False m d)) = params m"
  shows "params (snd (valid_one_epoch T bs model loss)) = params model \<and>
   (case one_epoch_test T bs model loss of
      Inl (e, model', out) \<Rightarrow> params model' = params model
    | Inr (v, model', out) \<Rightarrow> params model' = params model)"
proof
  have "params (snd (valid_one_epoch T bs model loss)) =
          params (cuda T (model\<lparr>training := False\<rparr>))"
    unfolding valid_one_epoch_def by (rule valid_batches_params [OF assms])
  then show kept: "params (snd (valid_one_epoch T bs model loss)) = params model"
    by (simp add: cuda_def)
  from one_epoch_test_outcome [of T bs model loss] kept
  show "case one_epoch_test T bs model loss of
      Inl (e, model', out) \<Rightarrow> params model' = params model
    | Inr (v, model', out) \<Rightarrow> params model' = params model"
    by auto
qed

theorem evaluation_keeps_parameters_witness:
  "params (snd (valid_one_epoch demo_torch two_batches demo_model demo_loss)) = 0 \<and>
   one_epoch_test demo_torch two_batches demo_model demo_loss =
     Inr (Fin 2, demo_model, [TestLoss (Fin 2), TestAccuracy 0 2])"
proof -
  have kept: "\<forall>m d. params (snd (forward demo_torch False m d)) = params m"
    by (simp add: demo_torch_def)
  from evaluation_keeps_parameters [OF kept, of two_batches demo_model demo_loss]
  show ?thesis by (simp add: demo_defs)
qed

text \<open>
  Claim C10. For \<^verbatim>\<open>n_epochs < 1\<close> the loop of \<^verbatim>\<open>optimize\<close> is empty: it returns with the
  model and the optimizer it was given, no stored minimum, no checkpoint written and
  nothing printed, so no epoch of training or validation has run.
\<close>

theorem no_epochs_no_effect:
  assumes "n_epochs < 1"
  shows "\<exists>st. optimize T loaders model optimizer loss n_epochs save_path interactive_tracking =
            Inr st \<and>
          st_model st = model \<and> st_optimizer st = optimizer \<and> valid_loss_min st = None \<and>
          saved st = [] \<and> printed st = [] \<and> plotted st = []"
  using assms by (simp add: optimize_def initial_run_def)

theorem no_epochs_no_effect_witness:
  "(0 :: int) < 1 \<and>
   optimize demo_torch plateau_loaders demo_model () demo_loss 0 ''best.pt'' False =
     Inr \<lparr>st_model = demo_model, st_optimizer = (), st_scheduler = (),
          valid_loss_min = None, saved = [], printed = [], plotted = []\<rparr>"
  using no_epochs_no_effect [of 0 demo_torch plateau_loaders demo_model "()" demo_loss
      "''best.pt''" False]
  by (simp add: demo_defs)

end
